theory Spec2Isabelle
  imports Main "HOL-Library.Char_ord" "HOL-Library.List_Lexorder"
    "HOL-Library.Product_Lexorder" "HOL-Library.Option_ord"
begin

section \<open>The registry cache of pack: data model\<close>

text \<open>
  The development follows \<^verbatim>\<open>internal/registry/registry.go\<close>. Go strings are byte
  sequences, modelled as \<^typ>\<open>string\<close>; \<^verbatim>\<open>len\<close> is \<^const>\<open>length\<close>, the slice
  \<^verbatim>\<open>s[:n]\<close> is \<^term>\<open>take n s\<close> and \<^verbatim>\<open>s[n:]\<close> is \<^term>\<open>drop n s\<close> (every slice of the
  source is taken inside the bounds, behind a length test).

  A Go \<^verbatim>\<open>error\<close> is a value of the datatype below: \<^verbatim>\<open>errors.New\<close> and
  \<^verbatim>\<open>fmt.Errorf\<close> build \<open>ErrorNew\<close> with the formatted message, \<^verbatim>\<open>errors.Wrap\<close>
  and \<^verbatim>\<open>errors.Wrapf\<close> build \<open>ErrorWrap\<close> around the cause, and the sentinel
  \<^verbatim>\<open>git.NoErrAlreadyUpToDate\<close> is a constructor of its own. The \<^verbatim>\<open>nil\<close> error is
  \<^term>\<open>None\<close>.
\<close>

datatype error =
    git_NoErrAlreadyUpToDate
  | ErrorNew string
  | ErrorWrap error string

record Buildpack =
  Namespace :: string
  Name :: string
  Version :: string
  Yanked :: bool
  Address :: string

text \<open>The zero value \<^verbatim>\<open>Buildpack{}\<close>.\<close>

definition Buildpack_zero :: Buildpack where
  "Buildpack_zero =
     \<lparr>Namespace = [], Name = [], Version = [], Yanked = False, Address = []\<rparr>"

record Entry =
  Buildpacks :: "Buildpack list"

text \<open>The zero value \<^verbatim>\<open>Entry{}\<close>: a nil slice, which has length 0.\<close>

definition Entry_zero :: Entry where
  "Entry_zero = \<lparr>Buildpacks = []\<rparr>"

record RegistryCache =
  URL :: string
  Root :: string

text \<open>
  What \<^verbatim>\<open>remote.Config()\<close> of go-git exposes to the source: the list of URLs.
\<close>

record RemoteConfig =
  URLs :: "string list"

text \<open>
  An opened index file, as the \<^verbatim>\<open>bufio.Scanner\<close> of the source sees it: the tokens
  that successive calls of \<^verbatim>\<open>Scan\<close> deliver, and what \<^verbatim>\<open>Err\<close> reports once
  \<^verbatim>\<open>Scan\<close> has returned false.
\<close>

record index_file =
  scan_Text :: "string list"
  scan_Err :: "error option"

text \<open>
  The packages that the source imports are parameters of the model: the operating
  system, go-git, the JSON decoder, the semantic-version comparison, the image-reference
  parser and the coordinate parser \<^verbatim>\<open>buildpack.ParseRegistryID\<close>. An operation
  that touches the outside world takes the world \<^typ>\<open>'w\<close> and returns it, so that
  nothing is assumed about what the file system or the network does between two calls.
  An operation that returns \<^verbatim>\<open>(value, error)\<close> and whose value the source drops on
  error returns a sum, \<^term>\<open>Inl\<close> carrying the error.
\<close>

record ('w, 'repo, 'wt) sys =
  os_Stat :: "string \<Rightarrow> 'w \<Rightarrow> error option \<times> 'w"
  os_IsNotExist :: "error \<Rightarrow> bool"
  os_RemoveAll :: "string \<Rightarrow> 'w \<Rightarrow> error option \<times> 'w"
  os_Rename :: "string \<Rightarrow> string \<Rightarrow> 'w \<Rightarrow> error option \<times> 'w"
  os_Open :: "string \<Rightarrow> 'w \<Rightarrow> (error + index_file) \<times> 'w"
  ioutil_TempDir :: "string \<Rightarrow> string \<Rightarrow> 'w \<Rightarrow> (error + string) \<times> 'w"
  filepath_Join :: "string list \<Rightarrow> string"
  git_PlainClone :: "string \<Rightarrow> bool \<Rightarrow> string \<Rightarrow> 'w \<Rightarrow> (error + 'repo) \<times> 'w"
  git_PlainOpen :: "string \<Rightarrow> 'w \<Rightarrow> (error + 'repo) \<times> 'w"
  Repository_Worktree :: "'repo \<Rightarrow> 'w \<Rightarrow> (error + 'wt) \<times> 'w"
  Repository_Remotes :: "'repo \<Rightarrow> 'w \<Rightarrow> (error + RemoteConfig list) \<times> 'w"
  Worktree_Filesystem_Root :: "'wt \<Rightarrow> string"
  Worktree_Pull :: "'wt \<Rightarrow> string \<Rightarrow> 'w \<Rightarrow> error option \<times> 'w"
  json_Unmarshal :: "string \<Rightarrow> error + Buildpack"
  semver_Compare :: "string \<Rightarrow> string \<Rightarrow> int"
  ggcrname_ParseReference :: "string \<Rightarrow> error option"
  ggcrname_NewDigest :: "string \<Rightarrow> error option"
  buildpack_ParseRegistryID :: "string \<Rightarrow> error + (string \<times> string \<times> string)"

section \<open>The cache lifecycle\<close>

definition createCache ::
  "('w, 'repo, 'wt) sys \<Rightarrow> RegistryCache \<Rightarrow> 'w \<Rightarrow> error option \<times> 'w" where
  "createCache sys r w =
     (case ioutil_TempDir sys [] ''registry'' w of
        (Inl err, w1) \<Rightarrow> (Some err, w1)
      | (Inr root, w1) \<Rightarrow>
     (case git_PlainClone sys root False (URL r) w1 of
        (Inl err, w2) \<Rightarrow> (Some err, w2)
      | (Inr repository, w2) \<Rightarrow>
     (case Repository_Worktree sys repository w2 of
        (Inl err, w3) \<Rightarrow> (Some err, w3)
      | (Inr wt, w3) \<Rightarrow>
          os_Rename sys (Worktree_Filesystem_Root sys wt) (Root r) w3)))"

text \<open>
  The test on the remotes of \<^verbatim>\<open>validateCache\<close>. Go's \<^verbatim>\<open>||\<close> is evaluated from
  the left and stops at the first true operand, so \<^verbatim>\<open>remotes[0]\<close> is read only when
  there is exactly one remote, and \<^verbatim>\<open>URLs[0]\<close> only when it has exactly one URL.
\<close>

definition checkRemotes :: "RegistryCache \<Rightarrow> RemoteConfig list \<Rightarrow> error option" where
  "checkRemotes r remotes =
     (if length remotes \<noteq> 1 \<or> length (URLs (remotes ! 0)) \<noteq> 1
      then Some (ErrorNew ''invalid registry cache remotes'')
      else if URLs (remotes ! 0) ! 0 \<noteq> URL r
      then Some (ErrorNew ''invalid registry cache origin'')
      else None)"

definition validateCache ::
  "('w, 'repo, 'wt) sys \<Rightarrow> RegistryCache \<Rightarrow> 'w \<Rightarrow> error option \<times> 'w" where
  "validateCache sys r w =
     (case git_PlainOpen sys (Root r) w of
        (Inl err, w1) \<Rightarrow> (Some (ErrorWrap err ''could not open registry cache''), w1)
      | (Inr repository, w1) \<Rightarrow>
     (case Repository_Remotes sys repository w1 of
        (Inl err, w2) \<Rightarrow> (Some (ErrorWrap err ''could not access registry cache''), w2)
      | (Inr remotes, w2) \<Rightarrow> (checkRemotes r remotes, w2)))"

text \<open>
  \<^verbatim>\<open>Initialize\<close>, from the call of \<^verbatim>\<open>validateCache\<close> to the end: both paths of
  the first half of the function (mirror found, mirror just created) continue here.
\<close>

definition Initialize_validate ::
  "('w, 'repo, 'wt) sys \<Rightarrow> RegistryCache \<Rightarrow> 'w \<Rightarrow> error option \<times> 'w" where
  "Initialize_validate sys r w =
     (case validateCache sys r w of
        (None, w1) \<Rightarrow> (None, w1)
      | (Some verr, w1) \<Rightarrow>
     (case os_RemoveAll sys (Root r) w1 of
        (Some err, w2) \<Rightarrow> (Some (ErrorWrap err ''could not reset registry cache''), w2)
      | (None, w2) \<Rightarrow>
     (case createCache sys r w2 of
        (Some err, w3) \<Rightarrow> (Some (ErrorWrap err ''could not create registry cache''), w3)
      | (None, w3) \<Rightarrow> (None, w3))))"

definition Initialize ::
  "('w, 'repo, 'wt) sys \<Rightarrow> RegistryCache \<Rightarrow> 'w \<Rightarrow> error option \<times> 'w" where
  "Initialize sys r w =
     (case os_Stat sys (Root r) w of
        (None, w1) \<Rightarrow> Initialize_validate sys r w1
      | (Some serr, w1) \<Rightarrow>
          if os_IsNotExist sys serr then
            (case createCache sys r w1 of
               (Some err, w2) \<Rightarrow>
                 (Some (ErrorWrap err ''could not create registry cache''), w2)
             | (None, w2) \<Rightarrow> Initialize_validate sys r w2)
          else Initialize_validate sys r w1)"

definition Refresh ::
  "('w, 'repo, 'wt) sys \<Rightarrow> RegistryCache \<Rightarrow> 'w \<Rightarrow> error option \<times> 'w" where
  "Refresh sys r w =
     (case Initialize sys r w of
        (Some err, w1) \<Rightarrow> (Some err, w1)
      | (None, w1) \<Rightarrow>
     (case git_PlainOpen sys (Root r) w1 of
        (Inl err, w2) \<Rightarrow>
          (Some (ErrorWrap err (''could not open ('' @ Root r @ '')'')), w2)
      | (Inr repository, w2) \<Rightarrow>
     (case Repository_Worktree sys repository w2 of
        (Inl err, w3) \<Rightarrow>
          (Some (ErrorWrap err (''could not read ('' @ Root r @ '')'')), w3)
      | (Inr wt, w3) \<Rightarrow>
     (case Worktree_Pull sys wt ''origin'' w3 of
        (perr, w4) \<Rightarrow>
          if perr = Some git_NoErrAlreadyUpToDate then (None, w4) else (perr, w4)))))"

section \<open>Reading an index file\<close>

text \<open>
  The \<^verbatim>\<open>switch\<close> at the head of \<^verbatim>\<open>readEntry\<close> that computes \<^verbatim>\<open>indexDir\<close>.
\<close>

definition indexDir :: "(string list \<Rightarrow> string) \<Rightarrow> string \<Rightarrow> string" where
  "indexDir join name =
     (if length name < 3 then name
      else if length name < 4 then join [take 2 name, drop 2 name]
      else join [take 2 name, drop 2 (take 4 name)])"

text \<open>
  The scanning loop of \<^verbatim>\<open>readEntry\<close> over the tokens still to come; \<open>acc\<close> is
  \<^verbatim>\<open>entry.Buildpacks\<close> so far. The loop leaves the function at the first line that does
  not decode.
\<close>

fun scan_loop ::
  "(string \<Rightarrow> error + Buildpack) \<Rightarrow> string \<Rightarrow> string \<Rightarrow> Buildpack list \<Rightarrow> string list
     \<Rightarrow> error + Buildpack list" where
  "scan_loop unmarshal ns name acc [] = Inr acc"
| "scan_loop unmarshal ns name acc (text # rest) =
     (case unmarshal text of
        Inl err \<Rightarrow>
          Inl (ErrorWrap err (''could not parse index for buildpack: '' @ ns @ ''/'' @ name))
      | Inr bp \<Rightarrow> scan_loop unmarshal ns name (acc @ [bp]) rest)"

definition readEntry ::
  "('w, 'repo, 'wt) sys \<Rightarrow> RegistryCache \<Rightarrow> string \<Rightarrow> string \<Rightarrow> string \<Rightarrow> 'w
     \<Rightarrow> (Entry \<times> error option) \<times> 'w" where
  "readEntry sys r ns name version w =
     (let index = filepath_Join sys
            [Root r, indexDir (filepath_Join sys) name, ns @ ''_'' @ name] in
      case os_Stat sys index w of
        (Some err, w1) \<Rightarrow>
          ((Entry_zero,
            Some (ErrorWrap err (''could not find buildpack: '' @ ns @ ''/'' @ name))), w1)
      | (None, w1) \<Rightarrow>
     (case os_Open sys index w1 of
        (Inl err, w2) \<Rightarrow>
          ((Entry_zero,
            Some (ErrorWrap err
              (''could not open index for buildpack: '' @ ns @ ''/'' @ name))), w2)
      | (Inr f, w2) \<Rightarrow>
     (case scan_loop (json_Unmarshal sys) ns name [] (scan_Text f) of
        Inl err \<Rightarrow> ((Entry_zero, Some err), w2)
      | Inr bps \<Rightarrow>
     (case scan_Err f of
        Some err \<Rightarrow>
          ((\<lparr>Buildpacks = bps\<rparr>,
            Some (ErrorWrap err
              (''could not read index for buildpack: '' @ ns @ ''/'' @ name))), w2)
      | None \<Rightarrow> ((\<lparr>Buildpacks = bps\<rparr>, None), w2)))))"

section \<open>Address validation\<close>

definition Validate :: "('w, 'repo, 'wt) sys \<Rightarrow> Buildpack \<Rightarrow> error option" where
  "Validate sys b =
     (if Address b = [] then Some (ErrorNew ''address is a required field'')
      else case ggcrname_ParseReference sys (Address b) of
        Some err \<Rightarrow> Some err
      | None \<Rightarrow>
     (case ggcrname_NewDigest sys (Address b) of
        Some err \<Rightarrow> Some (ErrorNew ([CHR 39] @ Address b @ [CHR 39] @ '' is not a digest reference''))
      | None \<Rightarrow> None))"

section \<open>Resolution\<close>

text \<open>
  The loop over \<^verbatim>\<open>entry.Buildpacks[1:]\<close> that keeps the highest version.
\<close>

fun highest_loop :: "(string \<Rightarrow> string \<Rightarrow> int) \<Rightarrow> Buildpack \<Rightarrow> Buildpack list \<Rightarrow> Buildpack" where
  "highest_loop cmp highestVersion [] = highestVersion"
| "highest_loop cmp highestVersion (bp # rest) =
     highest_loop cmp
       (if cmp (''v'' @ Version bp) (''v'' @ Version highestVersion) > 0 then bp
        else highestVersion) rest"

text \<open>The loop that looks for the requested version.\<close>

fun version_loop :: "string \<Rightarrow> Buildpack list \<Rightarrow> Buildpack option" where
  "version_loop version [] = None"
| "version_loop version (bpIndex # rest) =
     (if Version bpIndex = version then Some bpIndex else version_loop version rest)"

definition LocateBuildpack ::
  "('w, 'repo, 'wt) sys \<Rightarrow> RegistryCache \<Rightarrow> string \<Rightarrow> 'w
     \<Rightarrow> (Buildpack \<times> error option) \<times> 'w" where
  "LocateBuildpack sys r bp w =
     (case Refresh sys r w of
        (Some err, w1) \<Rightarrow> ((Buildpack_zero, Some (ErrorWrap err ''refreshing cache'')), w1)
      | (None, w1) \<Rightarrow>
     (case buildpack_ParseRegistryID sys bp of
        Inl err \<Rightarrow> ((Buildpack_zero, Some err), w1)
      | Inr (ns, name, version) \<Rightarrow>
     (case readEntry sys r ns name version w1 of
        ((entry, Some err), w2) \<Rightarrow>
          ((Buildpack_zero, Some (ErrorWrap err ''reading entry'')), w2)
      | ((entry, None), w2) \<Rightarrow>
          if length (Buildpacks entry) > 0 then
            if version = [] then
              ((highest_loop (semver_Compare sys)
                  (Buildpacks entry ! 0) (drop 1 (Buildpacks entry)), None), w2)
            else
              (case version_loop version (Buildpacks entry) of
                 Some bpIndex \<Rightarrow> ((bpIndex, None), w2)
               | None \<Rightarrow>
                   ((Buildpack_zero,
                     Some (ErrorNew (''could not find version for buildpack: '' @ bp))), w2))
          else
            ((Buildpack_zero, Some (ErrorNew (''no entries for buildpack: '' @ bp))), w2))))"

section \<open>Semantic versions\<close>

text \<open>
  \<^verbatim>\<open>semver.Compare\<close> of \<^verbatim>\<open>golang.org/x/mod/semver\<close>, the comparison that the
  source imports, written after the library: \<^verbatim>\<open>parse\<close> accepts
  \<^verbatim>\<open>vMAJOR[.MINOR[.PATCH[-PRERELEASE][+BUILD]]]\<close>, an invalid version is below every
  valid one, and two invalid versions compare equal. The theorems on the resolution
  hold for any comparison; this one is used where a concrete comparison is needed.
\<close>

definition isDigit :: "char \<Rightarrow> bool" where
  "isDigit c = (48 \<le> (of_char c :: nat) \<and> (of_char c :: nat) \<le> 57)"

definition isIdentChar :: "char \<Rightarrow> bool" where
  "isIdentChar c =
     (65 \<le> (of_char c :: nat) \<and> (of_char c :: nat) \<le> 90
      \<or> 97 \<le> (of_char c :: nat) \<and> (of_char c :: nat) \<le> 122
      \<or> 48 \<le> (of_char c :: nat) \<and> (of_char c :: nat) \<le> 57
      \<or> c = CHR ''-'')"

text \<open>Go's \<^verbatim>\<open><\<close> on strings: bytewise lexicographic.\<close>

fun bytes_less :: "string \<Rightarrow> string \<Rightarrow> bool" where
  "bytes_less [] [] = False"
| "bytes_less [] (y # ys) = True"
| "bytes_less (x # xs) [] = False"
| "bytes_less (x # xs) (y # ys) =
     (if x = y then bytes_less xs ys else (of_char x :: nat) < of_char y)"

definition isNum :: "string \<Rightarrow> bool" where
  "isNum v = (length (takeWhile isDigit v) = length v)"

definition isBadNum :: "string \<Rightarrow> bool" where
  "isBadNum v =
     (length (takeWhile isDigit v) = length v \<and> length (takeWhile isDigit v) > 1
      \<and> v ! 0 = CHR ''0'')"

definition parseInt :: "string \<Rightarrow> (string \<times> string) option" where
  "parseInt v =
     (if v = [] then None
      else if \<not> isDigit (v ! 0) then None
      else if v ! 0 = CHR ''0'' \<and> length (takeWhile isDigit v) \<noteq> 1 then None
      else Some (takeWhile isDigit v, dropWhile isDigit v))"

text \<open>
  The loop of \<^verbatim>\<open>parsePrerelease\<close>: \<open>t\<close> is \<^verbatim>\<open>v[:i]\<close>, \<open>cur\<close> is
  \<^verbatim>\<open>v[start:i]\<close>, the last argument is \<^verbatim>\<open>v[i:]\<close>.
\<close>

fun parsePrerelease_loop :: "string \<Rightarrow> string \<Rightarrow> string \<Rightarrow> (string \<times> string) option" where
  "parsePrerelease_loop t cur [] =
     (if cur = [] \<or> isBadNum cur then None else Some (t, []))"
| "parsePrerelease_loop t cur (c # cs) =
     (if c = CHR ''+'' then
        (if cur = [] \<or> isBadNum cur then None else Some (t, c # cs))
      else if \<not> isIdentChar c \<and> c \<noteq> CHR ''.'' then None
      else if c = CHR ''.'' then
        (if cur = [] \<or> isBadNum cur then None else parsePrerelease_loop (t @ [c]) [] cs)
      else parsePrerelease_loop (t @ [c]) (cur @ [c]) cs)"

definition parsePrerelease :: "string \<Rightarrow> (string \<times> string) option" where
  "parsePrerelease v =
     (if v = [] \<or> v ! 0 \<noteq> CHR ''-'' then None
      else parsePrerelease_loop (take 1 v) [] (drop 1 v))"

fun parseBuild_loop :: "string \<Rightarrow> string \<Rightarrow> string \<Rightarrow> (string \<times> string) option" where
  "parseBuild_loop t cur [] = (if cur = [] then None else Some (t, []))"
| "parseBuild_loop t cur (c # cs) =
     (if \<not> isIdentChar c \<and> c \<noteq> CHR ''.'' then None
      else if c = CHR ''.'' then
        (if cur = [] then None else parseBuild_loop (t @ [c]) [] cs)
      else parseBuild_loop (t @ [c]) (cur @ [c]) cs)"

definition parseBuild :: "string \<Rightarrow> (string \<times> string) option" where
  "parseBuild v =
     (if v = [] \<or> v ! 0 \<noteq> CHR ''+'' then None
      else parseBuild_loop (take 1 v) [] (drop 1 v))"

record parsed =
  major :: string
  minor :: string
  patch :: string
  short :: string
  prerelease :: string
  build :: string

definition parse :: "string \<Rightarrow> parsed option" where
  "parse v =
     (if v = [] \<or> v ! 0 \<noteq> CHR ''v'' then None
      else case parseInt (drop 1 v) of
        None \<Rightarrow> None
      | Some (ma, v1) \<Rightarrow>
     (if v1 = [] then
        Some \<lparr>major = ma, minor = ''0'', patch = ''0'', short = ''.0.0'',
              prerelease = [], build = []\<rparr>
      else if v1 ! 0 \<noteq> CHR ''.'' then None
      else case parseInt (drop 1 v1) of
        None \<Rightarrow> None
      | Some (mi, v2) \<Rightarrow>
     (if v2 = [] then
        Some \<lparr>major = ma, minor = mi, patch = ''0'', short = ''.0'',
              prerelease = [], build = []\<rparr>
      else if v2 ! 0 \<noteq> CHR ''.'' then None
      else case parseInt (drop 1 v2) of
        None \<Rightarrow> None
      | Some (pa, v3) \<Rightarrow>
     (case (if v3 \<noteq> [] \<and> v3 ! 0 = CHR ''-'' then parsePrerelease v3 else Some ([], v3)) of
        None \<Rightarrow> None
      | Some (pre, v4) \<Rightarrow>
     (case (if v4 \<noteq> [] \<and> v4 ! 0 = CHR ''+'' then parseBuild v4 else Some ([], v4)) of
        None \<Rightarrow> None
      | Some (bu, v5) \<Rightarrow>
          if v5 \<noteq> [] then None
          else Some \<lparr>major = ma, minor = mi, patch = pa, short = [],
                     prerelease = pre, build = bu\<rparr>)))))"

definition compareInt :: "string \<Rightarrow> string \<Rightarrow> int" where
  "compareInt x y =
     (if x = y then 0
      else if length x < length y then - 1
      else if length x > length y then 1
      else if bytes_less x y then - 1 else 1)"

definition nextIdent :: "string \<Rightarrow> string \<times> string" where
  "nextIdent x = (takeWhile (\<lambda>c. c \<noteq> CHR ''.'') x, dropWhile (\<lambda>c. c \<noteq> CHR ''.'') x)"

definition compareIdent :: "string \<Rightarrow> string \<Rightarrow> int" where
  "compareIdent dx dy =
     (if isNum dx \<noteq> isNum dy then (if isNum dx then - 1 else 1)
      else if isNum dx \<and> length dx < length dy then - 1
      else if isNum dx \<and> length dx > length dy then 1
      else if bytes_less dx dy then - 1 else 1)"

text \<open>
  The loop of \<^verbatim>\<open>comparePrerelease\<close>; \<open>compareIdent\<close> is the body of its
  \<^verbatim>\<open>if dx != dy\<close>. Each round drops at least the separator from \<open>x\<close>.
\<close>

function comparePrerelease_loop :: "string \<Rightarrow> string \<Rightarrow> int" where
  "comparePrerelease_loop x y =
     (if x \<noteq> [] \<and> y \<noteq> [] then
        (if fst (nextIdent (drop 1 x)) \<noteq> fst (nextIdent (drop 1 y))
         then compareIdent (fst (nextIdent (drop 1 x))) (fst (nextIdent (drop 1 y)))
         else comparePrerelease_loop (snd (nextIdent (drop 1 x))) (snd (nextIdent (drop 1 y))))
      else if x = [] then - 1 else 1)"
  by pat_completeness auto
termination
proof (relation "measure (\<lambda>(x, y). length x)")
  show "wf (measure (\<lambda>(x, y). length x))" by simp
next
  fix x y :: string
  assume "x \<noteq> [] \<and> y \<noteq> []"
  then have "length (drop 1 x) < length x" by (cases x) simp_all
  moreover have "length (dropWhile (\<lambda>c. c \<noteq> CHR ''.'') (drop 1 x)) \<le> length (drop 1 x)"
    by (rule length_dropWhile_le)
  ultimately show "((snd (nextIdent (drop 1 x)), snd (nextIdent (drop 1 y))), (x, y))
      \<in> measure (\<lambda>(x, y). length x)"
    by (simp add: nextIdent_def)
qed

declare comparePrerelease_loop.simps [simp del]

definition comparePrerelease :: "string \<Rightarrow> string \<Rightarrow> int" where
  "comparePrerelease x y =
     (if x = y then 0
      else if x = [] then 1
      else if y = [] then - 1
      else comparePrerelease_loop x y)"

definition Compare :: "string \<Rightarrow> string \<Rightarrow> int" where
  "Compare v w =
     (case (parse v, parse w) of
        (None, None) \<Rightarrow> 0
      | (None, Some pw) \<Rightarrow> - 1
      | (Some pv, None) \<Rightarrow> 1
      | (Some pv, Some pw) \<Rightarrow>
          if compareInt (major pv) (major pw) \<noteq> 0 then compareInt (major pv) (major pw)
          else if compareInt (minor pv) (minor pw) \<noteq> 0 then compareInt (minor pv) (minor pw)
          else if compareInt (patch pv) (patch pw) \<noteq> 0 then compareInt (patch pv) (patch pw)
          else comparePrerelease (prerelease pv) (prerelease pw))"

text \<open>
  The rank of a version string, for the proofs: \<open>Compare v w\<close> is positive exactly
  when the rank of \<open>v\<close> is above the rank of \<open>w\<close> in the lexicographic order.
  \<open>idents\<close> lists the identifiers that the loop of \<^verbatim>\<open>comparePrerelease\<close> visits.
\<close>

function idents :: "string \<Rightarrow> string list" where
  "idents x =
     (if x = [] then []
      else fst (nextIdent (drop 1 x)) # idents (snd (nextIdent (drop 1 x))))"
  by pat_completeness auto
termination
proof (relation "measure length")
  show "wf (measure length)" by simp
next
  fix x :: string
  assume "x \<noteq> []"
  then have "length (drop 1 x) < length x" by (cases x) simp_all
  moreover have "length (dropWhile (\<lambda>c. c \<noteq> CHR ''.'') (drop 1 x)) \<le> length (drop 1 x)"
    by (rule length_dropWhile_le)
  ultimately show "(snd (nextIdent (drop 1 x)), x) \<in> measure length"
    by (simp add: nextIdent_def)
qed

declare idents.simps [simp del]

definition ident_key :: "string \<Rightarrow> nat \<times> nat \<times> string" where
  "ident_key d = (if isNum d then (0, length d, d) else (1, 0, d))"

definition prerelease_key :: "string \<Rightarrow> nat \<times> (nat \<times> nat \<times> string) list" where
  "prerelease_key x = (if x = [] then (1, []) else (0, map ident_key (idents x)))"

definition int_key :: "string \<Rightarrow> nat \<times> string" where
  "int_key x = (length x, x)"

definition version_key ::
  "string \<Rightarrow> ((nat \<times> string) \<times> (nat \<times> string) \<times> (nat \<times> string)
      \<times> nat \<times> (nat \<times> nat \<times> string) list) option" where
  "version_key v =
     map_option (\<lambda>p. (int_key (major p), int_key (minor p), int_key (patch p),
        prerelease_key (prerelease p))) (parse v)"

text \<open>
  What the selection of the highest version needs of a comparison on a set of version
  strings: being strictly greater (a positive result) is irreflexive, transitive, and
  negatively transitive, as it is for any comparison that ranks its arguments.
\<close>

definition strict_weak_on :: "(string \<Rightarrow> string \<Rightarrow> int) \<Rightarrow> string set \<Rightarrow> bool" where
  "strict_weak_on cmp V =
     ((\<forall>a \<in> V. \<not> cmp a a > 0)
      \<and> (\<forall>a \<in> V. \<forall>b \<in> V. \<forall>c \<in> V. cmp a b > 0 \<and> cmp b c > 0 \<longrightarrow> cmp a c > 0)
      \<and> (\<forall>a \<in> V. \<forall>b \<in> V. \<forall>c \<in> V. cmp a b > 0 \<longrightarrow> cmp a c > 0 \<or> cmp c b > 0))"

section \<open>A small environment to run the model in\<close>

text \<open>
  One instance of the parameters, on which the functions above can be evaluated: a
  world with a single cache root, whose content is either absent or a tree with its
  configured remotes and its index files (keyed by their full path). A clone copies the
  tree \<open>upstream\<close> into a staging place, a rename moves the staging place to the cache
  root, and every operation on the world is recorded in \<open>calls\<close>, oldest first. JSON
  lines are decoded by a finite table; paths are joined with a slash; references must
  not contain a blank, and digests must contain an at sign.
\<close>

record mock_tree =
  tree_remotes :: "RemoteConfig list"
  tree_files :: "(string \<times> index_file) list"

record mock_world =
  mirror :: "mock_tree option"
  staging :: "mock_tree option"
  upstream :: mock_tree
  calls :: "string list"

definition ENOENT :: error where
  "ENOENT = ErrorNew ''no such file or directory''"

definition called :: "string \<Rightarrow> mock_world \<Rightarrow> mock_world" where
  "called op w = w\<lparr>calls := calls w @ [op]\<rparr>"

definition mock_lookup :: "string \<Rightarrow> string \<Rightarrow> mock_world \<Rightarrow> error + index_file" where
  "mock_lookup root p w =
     (case mirror w of
        None \<Rightarrow> Inl ENOENT
      | Some t \<Rightarrow>
          if p = root then Inr \<lparr>scan_Text = [], scan_Err = Some (ErrorNew ''is a directory'')\<rparr>
          else (case map_of (tree_files t) p of None \<Rightarrow> Inl ENOENT | Some f \<Rightarrow> Inr f))"

fun mock_Join :: "string list \<Rightarrow> string" where
  "mock_Join [] = []"
| "mock_Join [x] = x"
| "mock_Join (x # y # ys) = x @ ''/'' @ mock_Join (y # ys)"

definition mock_ParseRegistryID :: "string \<Rightarrow> error + (string \<times> string \<times> string)" where
  "mock_ParseRegistryID s =
     (if CHR ''/'' \<notin> set s then Inl (ErrorNew (''invalid registry ID: '' @ s))
      else Inr (takeWhile (\<lambda>c. c \<noteq> CHR ''/'') s,
                takeWhile (\<lambda>c. c \<noteq> CHR ''@'') (drop 1 (dropWhile (\<lambda>c. c \<noteq> CHR ''/'') s)),
                drop 1 (dropWhile (\<lambda>c. c \<noteq> CHR ''@'')
                  (drop 1 (dropWhile (\<lambda>c. c \<noteq> CHR ''/'') s)))))"

definition mock_sys ::
  "string \<Rightarrow> (string \<times> Buildpack) list \<Rightarrow> (mock_world, unit, unit) sys" where
  "mock_sys root table =
     \<lparr>os_Stat = (\<lambda>p w.
        (case mock_lookup root p w of Inl err \<Rightarrow> Some err | Inr f \<Rightarrow> None,
         called ''Stat'' w)),
      os_IsNotExist = (\<lambda>err. err = ENOENT),
      os_RemoveAll = (\<lambda>p w.
        (None, called ''RemoveAll'' (if p = root then w\<lparr>mirror := None\<rparr> else w))),
      os_Rename = (\<lambda>old new w.
        if new = root \<and> mirror w = None
        then (None, called ''Rename'' (w\<lparr>mirror := staging w, staging := None\<rparr>))
        else (Some (ErrorNew ''file exists''), called ''Rename'' w)),
      os_Open = (\<lambda>p w. (mock_lookup root p w, called ''Open'' w)),
      ioutil_TempDir = (\<lambda>dir pattern w. (Inr (''/tmp/'' @ pattern @ ''0''), called ''TempDir'' w)),
      filepath_Join = mock_Join,
      git_PlainClone = (\<lambda>path bare url w.
        (Inr (), called ''PlainClone'' (w\<lparr>staging := Some (upstream w)\<rparr>))),
      git_PlainOpen = (\<lambda>path w.
        (if path = root \<and> mirror w \<noteq> None then Inr ()
         else Inl (ErrorNew ''repository does not exist''), called ''PlainOpen'' w)),
      Repository_Worktree = (\<lambda>repository w. (Inr (), called ''Worktree'' w)),
      Repository_Remotes = (\<lambda>repository w.
        (case mirror w of
           None \<Rightarrow> Inl (ErrorNew ''repository does not exist'')
         | Some t \<Rightarrow> Inr (tree_remotes t), called ''Remotes'' w)),
      Worktree_Filesystem_Root = (\<lambda>wt. ''/tmp/registry0''),
      Worktree_Pull = (\<lambda>wt remote w. (Some git_NoErrAlreadyUpToDate, called ''Pull'' w)),
      json_Unmarshal = (\<lambda>text.
        case map_of table text of
          None \<Rightarrow> Inl (ErrorNew ''invalid character'')
        | Some b \<Rightarrow> Inr b),
      semver_Compare = Compare,
      ggcrname_ParseReference = (\<lambda>a.
        if CHR '' '' \<in> set a then Some (ErrorNew ''could not parse reference'') else None),
      ggcrname_NewDigest = (\<lambda>a.
        if CHR ''@'' \<in> set a then None
        else Some (ErrorNew ''a digest must contain exactly one @ separator'')),
      buildpack_ParseRegistryID = mock_ParseRegistryID\<rparr>"

text \<open>The cache, the entries and the worlds used in the examples.\<close>

definition cache0 :: RegistryCache where
  "cache0 = \<lparr>URL = ''https://example.org/index'', Root = ''/home/registry-0''\<rparr>"

definition bp_of :: "string \<Rightarrow> bool \<Rightarrow> string \<Rightarrow> Buildpack" where
  "bp_of v y a = \<lparr>Namespace = ''ns'', Name = ''abc'', Version = v, Yanked = y, Address = a\<rparr>"

definition table0 :: "(string \<times> Buildpack) list" where
  "table0 =
     [(''L100'', bp_of ''1.0.0'' False ''r.io/abc@sha256:aa''),
      (''L210'', bp_of ''2.1.0'' True ''r.io/abc@sha256:bb''),
      (''L199'', bp_of ''1.9.9'' False ''r.io/abc@sha256:cc''),
      (''L100b'', bp_of ''1.0.0'' False ''r.io/abc@sha256:dd''),
      (''Lx'', bp_of ''latest'' False ''r.io/abc@sha256:ee''),
      (''Ly'', bp_of ''1.x'' False ''r.io/abc@sha256:ff''),
      (''Lnoaddr'', bp_of ''3.0.0'' False [])]"

definition tree_of :: "string list \<Rightarrow> string list \<Rightarrow> error option \<Rightarrow> mock_tree" where
  "tree_of urls ls e =
     \<lparr>tree_remotes = [\<lparr>URLs = urls\<rparr>],
      tree_files = [(''/home/registry-0/ab/c/ns_abc'', \<lparr>scan_Text = ls, scan_Err = e\<rparr>)]\<rparr>"

definition world_with :: "mock_tree option \<Rightarrow> mock_tree \<Rightarrow> mock_world" where
  "world_with m u = \<lparr>mirror = m, staging = None, upstream = u, calls = []\<rparr>"

text \<open>A world whose mirror is valid and whose index file for \<open>ns/abc\<close> has the lines \<open>ls\<close>.\<close>

definition world_lines :: "string list \<Rightarrow> error option \<Rightarrow> mock_world" where
  "world_lines ls e =
     world_with (Some (tree_of [URL cache0] ls e)) (tree_of [URL cache0] ls e)"

text \<open>
  A world whose mirror points at another remote, and a world without a mirror whose
  remote yields clones that point elsewhere.
\<close>

definition world_stale :: mock_world where
  "world_stale =
     world_with (Some (tree_of [''https://elsewhere.org/index''] [''L100''] None))
       (tree_of [URL cache0] [''L210''] None)"

definition world_absent :: mock_world where
  "world_absent = world_with None (tree_of [''https://elsewhere.org/index''] [''L100''] None)"

section \<open>The comparison of versions ranks its arguments\<close>

lemma bytes_less_iff: "bytes_less x y \<longleftrightarrow> x < y"
  by (induction x y rule: bytes_less.induct) (auto simp: less_char_def)

lemma compareInt_pos: "compareInt x y > 0 \<longleftrightarrow> int_key y < int_key x"
  by (auto simp: compareInt_def int_key_def bytes_less_iff)

lemma compareInt_zero: "compareInt x y = 0 \<longleftrightarrow> int_key x = int_key y"
  by (auto simp: compareInt_def int_key_def)

lemma ident_key_inj: "ident_key a = ident_key b \<longleftrightarrow> a = b"
  by (auto simp: ident_key_def split: if_splits)

lemma compareIdent_pos: "dx \<noteq> dy \<Longrightarrow> compareIdent dx dy > 0 \<longleftrightarrow> ident_key dy < ident_key dx"
  by (auto simp: compareIdent_def ident_key_def bytes_less_iff)

lemma comparePrerelease_loop_pos:
  "comparePrerelease_loop x y > 0 \<longleftrightarrow> map ident_key (idents y) < map ident_key (idents x)"
proof (induction x y rule: comparePrerelease_loop.induct)
  case (1 x y)
  show ?case
  proof (cases "x \<noteq> [] \<and> y \<noteq> []")
    case True
    show ?thesis
    proof (cases "fst (nextIdent (drop 1 x)) = fst (nextIdent (drop 1 y))")
      case same: True
      with True 1 [OF True] show ?thesis
        by (subst comparePrerelease_loop.simps, subst (1 2) idents.simps) simp
    next
      case False
      with True compareIdent_pos [OF False] show ?thesis
        by (subst comparePrerelease_loop.simps, subst (1 2) idents.simps)
          (auto simp: ident_key_inj)
    qed
  next
    case False
    then show ?thesis
      by (subst comparePrerelease_loop.simps, subst (1 2) idents.simps) auto
  qed
qed

lemma comparePrerelease_pos:
  "comparePrerelease x y > 0 \<longleftrightarrow> prerelease_key y < prerelease_key x"
  by (auto simp: comparePrerelease_def prerelease_key_def comparePrerelease_loop_pos)

lemma Compare_pos: "Compare v w > 0 \<longleftrightarrow> version_key w < version_key v"
  by (auto simp: Compare_def version_key_def compareInt_pos compareInt_zero
      comparePrerelease_pos split: option.splits)

lemma Compare_strict_weak: "strict_weak_on Compare V"
  unfolding strict_weak_on_def Compare_pos by auto

section \<open>The shard directory\<close>

text \<open>
  Claim C4. The shard directory that \<^verbatim>\<open>readEntry\<close> computes for a name is the name
  itself when the name has fewer than 3 bytes, \<^verbatim>\<open>name[0:2]\<close> joined with
  \<^verbatim>\<open>name[2:3]\<close> when it has exactly 3, and \<^verbatim>\<open>name[0:2]\<close> joined with
  \<^verbatim>\<open>name[2:4]\<close> when it has 4 or more; from 4 bytes on it depends on the first four
  bytes only. The last five conjuncts are the names of length 1 to 5. The slash of the
  claim is \<^verbatim>\<open>filepath.Join\<close>, the parameter \<open>join\<close>.
\<close>

theorem indexDir_by_length:
  "(length name < 3 \<longrightarrow> indexDir join name = name)
   \<and> (length name = 3 \<longrightarrow> indexDir join name = join [take 2 name, drop 2 (take 3 name)])
   \<and> (length name \<ge> 4 \<longrightarrow> indexDir join name = join [take 2 name, drop 2 (take 4 name)])
   \<and> (length name \<ge> 4 \<longrightarrow> indexDir join name = indexDir join (take 4 name))
   \<and> indexDir join [a] = [a]
   \<and> indexDir join [a, b] = [a, b]
   \<and> indexDir join [a, b, c] = join [[a, b], [c]]
   \<and> indexDir join [a, b, c, d] = join [[a, b], [c, d]]
   \<and> indexDir join [a, b, c, d, e] = join [[a, b], [c, d]]"
  by (simp add: indexDir_def)

theorem indexDir_by_length_witness:
  "length ''go'' < 3 \<and> indexDir mock_Join ''go'' = ''go''
   \<and> length ''git'' = 3 \<and> indexDir mock_Join ''git'' = ''gi/t''
   \<and> length ''python'' \<ge> 4 \<and> indexDir mock_Join ''python'' = ''py/th''
   \<and> indexDir mock_Join ''python'' = indexDir mock_Join ''pyth''"
  using indexDir_by_length [of "''go''" mock_Join]
    indexDir_by_length [of "''git''" mock_Join]
    indexDir_by_length [of "''python''" mock_Join]
  by simp

section \<open>Address validation\<close>

text \<open>
  Claim C7. \<^verbatim>\<open>Validate\<close> fails on an empty address, fails on an address that the
  reference parser rejects, fails on an address that the digest parser rejects (a
  reference with a tag and no digest is one), and succeeds on a non-empty address that
  both parsers accept.
\<close>

theorem Validate_outcomes:
  "(Address b = [] \<longrightarrow> Validate sys b = Some (ErrorNew ''address is a required field''))
   \<and> (ggcrname_ParseReference sys (Address b) \<noteq> None \<longrightarrow> Validate sys b \<noteq> None)
   \<and> (ggcrname_NewDigest sys (Address b) \<noteq> None \<longrightarrow> Validate sys b \<noteq> None)
   \<and> (Address b \<noteq> [] \<and> ggcrname_ParseReference sys (Address b) = None
        \<and> ggcrname_NewDigest sys (Address b) = None \<longrightarrow> Validate sys b = None)"
  by (auto simp: Validate_def split: option.splits)

theorem Validate_outcomes_witness:
  "Validate (mock_sys (Root cache0) table0) (bp_of ''1.0.0'' False [])
     = Some (ErrorNew ''address is a required field'')
   \<and> ggcrname_ParseReference (mock_sys (Root cache0) table0) ''r.io/a b'' \<noteq> None
   \<and> Validate (mock_sys (Root cache0) table0) (bp_of ''1.0.0'' False ''r.io/a b'') \<noteq> None
   \<and> ggcrname_NewDigest (mock_sys (Root cache0) table0) ''r.io/abc:latest'' \<noteq> None
   \<and> Validate (mock_sys (Root cache0) table0) (bp_of ''1.0.0'' False ''r.io/abc:latest'') \<noteq> None
   \<and> ggcrname_ParseReference (mock_sys (Root cache0) table0) ''r.io/abc@sha256:e3b0c44298fc1c149afbf4c8996fb92427ae41e4649b934ca495991b7852b855'' = None
   \<and> ggcrname_NewDigest (mock_sys (Root cache0) table0) ''r.io/abc@sha256:e3b0c44298fc1c149afbf4c8996fb92427ae41e4649b934ca495991b7852b855'' = None
   \<and> Validate (mock_sys (Root cache0) table0) (bp_of ''1.0.0'' False ''r.io/abc@sha256:e3b0c44298fc1c149afbf4c8996fb92427ae41e4649b934ca495991b7852b855'') = None"
  using
    Validate_outcomes [of "bp_of ''1.0.0'' False []" "mock_sys (Root cache0) table0"]
    Validate_outcomes [of "bp_of ''1.0.0'' False ''r.io/a b''" "mock_sys (Root cache0) table0"]
    Validate_outcomes [of "bp_of ''1.0.0'' False ''r.io/abc:latest''" "mock_sys (Root cache0) table0"]
    Validate_outcomes [of "bp_of ''1.0.0'' False ''r.io/abc@sha256:e3b0c44298fc1c149afbf4c8996fb92427ae41e4649b934ca495991b7852b855''" "mock_sys (Root cache0) table0"]
  by (simp add: mock_sys_def bp_of_def)

section \<open>Resolution: what the caller of LocateBuildpack gets\<close>

lemma version_loop_find: "version_loop version bps = find (\<lambda>b. Version b = version) bps"
  by (induction bps) simp_all

lemma LocateBuildpack_read:
  assumes "Refresh sys r w = (None, w1)"
    and "buildpack_ParseRegistryID sys bp = Inr (ns, name, version)"
    and "readEntry sys r ns name version w1 = ((entry, None), w2)"
  shows "LocateBuildpack sys r bp w =
     (if length (Buildpacks entry) > 0 then
        if version = [] then
          ((highest_loop (semver_Compare sys)
              (Buildpacks entry ! 0) (drop 1 (Buildpacks entry)), None), w2)
        else
          (case version_loop version (Buildpacks entry) of
             Some bpIndex \<Rightarrow> ((bpIndex, None), w2)
           | None \<Rightarrow>
               ((Buildpack_zero,
                 Some (ErrorNew (''could not find version for buildpack: '' @ bp))), w2))
      else
        ((Buildpack_zero, Some (ErrorNew (''no entries for buildpack: '' @ bp))), w2))"
  using assms by (simp add: LocateBuildpack_def)

lemma LocateBuildpack_read_error:
  assumes "Refresh sys r w = (None, w1)"
    and "buildpack_ParseRegistryID sys bp = Inr (ns, name, version)"
    and "readEntry sys r ns name version w1 = ((entry, Some err), w2)"
  shows "LocateBuildpack sys r bp w =
     ((Buildpack_zero, Some (ErrorWrap err ''reading entry'')), w2)"
  using assms by (simp add: LocateBuildpack_def)

text \<open>
  Claim C8. When the index file of the coordinate was found and read without error and
  holds no entry, \<^verbatim>\<open>LocateBuildpack\<close> returns the error
  \<^verbatim>\<open>no entries for buildpack: <coordinate>\<close>, with the zero entry.
\<close>

theorem no_entries_error:
  assumes "Refresh sys r w = (None, w1)"
    and "buildpack_ParseRegistryID sys bp = Inr (ns, name, version)"
    and "readEntry sys r ns name version w1 = ((entry, None), w2)"
    and "Buildpacks entry = []"
  shows "LocateBuildpack sys r bp w =
    ((Buildpack_zero, Some (ErrorNew (''no entries for buildpack: '' @ bp))), w2)"
  using assms(4) by (simp add: LocateBuildpack_read [OF assms(1-3)])

theorem no_entries_error_witness:
  "fst (LocateBuildpack (mock_sys (Root cache0) table0) cache0 ''ns/abc'' (world_lines [] None))
     = (Buildpack_zero, Some (ErrorNew ''no entries for buildpack: ns/abc''))"
proof -
  let ?S = "mock_sys (Root cache0) table0"
  let ?w = "world_lines [] None"
  let ?w1 = "snd (Refresh ?S cache0 ?w)"
  let ?re = "readEntry ?S cache0 ''ns'' ''abc'' [] ?w1"
  have h1: "Refresh ?S cache0 ?w = (None, ?w1)" by code_simp
  have h2: "buildpack_ParseRegistryID ?S ''ns/abc'' = Inr (''ns'', ''abc'', [])" by code_simp
  have h3: "?re = ((fst (fst ?re), None), snd ?re)" by code_simp
  have h4: "Buildpacks (fst (fst ?re)) = []" by code_simp
  from no_entries_error [OF h1 h2 h3 h4] show ?thesis by simp
qed

text \<open>
  Claim C3. When the coordinate carries a version and the entry list is not empty,
  \<^verbatim>\<open>LocateBuildpack\<close> returns the first entry whose version is equal, as a string,
  to the requested one, wherever it stands in the list; when no entry has that version
  string it returns the error \<^verbatim>\<open>could not find version for buildpack: <coordinate>\<close>.
\<close>

theorem exact_version_match:
  assumes "Refresh sys r w = (None, w1)"
    and "buildpack_ParseRegistryID sys bp = Inr (ns, name, version)"
    and "readEntry sys r ns name version w1 = ((entry, None), w2)"
    and "Buildpacks entry \<noteq> []"
    and "version \<noteq> []"
  shows "(\<forall>i < length (Buildpacks entry).
            Version (Buildpacks entry ! i) = version
            \<and> (\<forall>j < i. Version (Buildpacks entry ! j) \<noteq> version)
            \<longrightarrow> LocateBuildpack sys r bp w = ((Buildpacks entry ! i, None), w2))
         \<and> ((\<forall>b \<in> set (Buildpacks entry). Version b \<noteq> version)
            \<longrightarrow> LocateBuildpack sys r bp w =
                  ((Buildpack_zero,
                    Some (ErrorNew (''could not find version for buildpack: '' @ bp))), w2))"
proof (intro conjI allI impI)
  fix i
  assume i: "i < length (Buildpacks entry)"
    and m: "Version (Buildpacks entry ! i) = version
            \<and> (\<forall>j < i. Version (Buildpacks entry ! j) \<noteq> version)"
  then have "find (\<lambda>b. Version b = version) (Buildpacks entry) = Some (Buildpacks entry ! i)"
    by (auto simp: find_Some_iff)
  then show "LocateBuildpack sys r bp w = ((Buildpacks entry ! i, None), w2)"
    using assms(4,5) by (simp add: LocateBuildpack_read [OF assms(1-3)] version_loop_find)
next
  assume "\<forall>b \<in> set (Buildpacks entry). Version b \<noteq> version"
  then have "find (\<lambda>b. Version b = version) (Buildpacks entry) = None"
    by (simp add: find_None_iff)
  then show "LocateBuildpack sys r bp w =
      ((Buildpack_zero, Some (ErrorNew (''could not find version for buildpack: '' @ bp))), w2)"
    using assms(4,5) by (simp add: LocateBuildpack_read [OF assms(1-3)] version_loop_find)
qed

theorem exact_version_match_witness:
  "fst (LocateBuildpack (mock_sys (Root cache0) table0) cache0 ''ns/abc@1.0.0''
          (world_lines [''L199'', ''L100'', ''L100b''] None))
     = (bp_of ''1.0.0'' False ''r.io/abc@sha256:aa'', None)
   \<and> fst (LocateBuildpack (mock_sys (Root cache0) table0) cache0 ''ns/abc@1.0''
          (world_lines [''L199'', ''L100'', ''L100b''] None))
     = (Buildpack_zero, Some (ErrorNew ''could not find version for buildpack: ns/abc@1.0''))"
proof -
  let ?S = "mock_sys (Root cache0) table0"
  let ?w = "world_lines [''L199'', ''L100'', ''L100b''] None"
  let ?w1 = "snd (Refresh ?S cache0 ?w)"
  let ?re = "readEntry ?S cache0 ''ns'' ''abc'' ''1.0.0'' ?w1"
  let ?re' = "readEntry ?S cache0 ''ns'' ''abc'' ''1.0'' ?w1"
  let ?bps = "[bp_of ''1.9.9'' False ''r.io/abc@sha256:cc'',
      bp_of ''1.0.0'' False ''r.io/abc@sha256:aa'', bp_of ''1.0.0'' False ''r.io/abc@sha256:dd'']"
  have h1: "Refresh ?S cache0 ?w = (None, ?w1)" by code_simp
  have h2: "buildpack_ParseRegistryID ?S ''ns/abc@1.0.0'' = Inr (''ns'', ''abc'', ''1.0.0'')"
    by code_simp
  have h2': "buildpack_ParseRegistryID ?S ''ns/abc@1.0'' = Inr (''ns'', ''abc'', ''1.0'')"
    by code_simp
  have h3: "?re = ((\<lparr>Buildpacks = ?bps\<rparr>, None), snd ?re)" by code_simp
  have h3': "?re' = ((\<lparr>Buildpacks = ?bps\<rparr>, None), snd ?re')" by code_simp
  have h4: "Buildpacks \<lparr>Buildpacks = ?bps\<rparr> \<noteq> []" by simp
  have a: "LocateBuildpack ?S cache0 ''ns/abc@1.0.0'' ?w
      = ((Buildpacks \<lparr>Buildpacks = ?bps\<rparr> ! 1, None), snd ?re)"
    using exact_version_match [OF h1 h2 h3 h4, THEN conjunct1, rule_format, of 1]
    by (simp add: bp_of_def)
  have b: "LocateBuildpack ?S cache0 ''ns/abc@1.0'' ?w
      = ((Buildpack_zero, Some (ErrorNew (''could not find version for buildpack: '' @ ''ns/abc@1.0''))),
         snd ?re')"
    using exact_version_match [OF h1 h2' h3' h4, THEN conjunct2]
    by (simp add: bp_of_def)
  show ?thesis by (simp add: a b)
qed

lemma scan_loop_Inl:
  "i < length ls \<Longrightarrow> \<forall>j < i. \<not> isl (unm (ls ! j)) \<Longrightarrow> unm (ls ! i) = Inl e \<Longrightarrow>
   scan_loop unm ns name acc ls =
     Inl (ErrorWrap e (''could not parse index for buildpack: '' @ ns @ ''/'' @ name))"
proof (induction ls arbitrary: i acc)
  case Nil
  then show ?case by simp
next
  case (Cons l ls)
  show ?case
  proof (cases i)
    case 0
    with Cons.prems show ?thesis by simp
  next
    case (Suc k)
    with Cons.prems have "\<not> isl (unm l)" by auto
    then obtain b where b: "unm l = Inr b" by (cases "unm l") auto
    from Suc Cons.prems have "k < length ls" "\<forall>j < k. \<not> isl (unm (ls ! j))" "unm (ls ! k) = Inl e"
      by auto
    from Cons.IH [OF this] b show ?thesis by simp
  qed
qed

lemma scan_loop_Inr:
  "\<forall>l \<in> set ls. \<not> isl (unm l) \<Longrightarrow>
   scan_loop unm ns name acc ls = Inr (acc @ map (\<lambda>l. projr (unm l)) ls)"
proof (induction ls arbitrary: acc)
  case Nil
  then show ?case by simp
next
  case (Cons l ls)
  then obtain b where b: "unm l = Inr b" by (cases "unm l") auto
  with Cons show ?case by simp
qed

lemma scan_loop_bad:
  "\<exists>l \<in> set ls. isl (unm l) \<Longrightarrow> isl (scan_loop unm ns name acc ls)"
  by (induction ls arbitrary: acc) (auto split: sum.splits)

lemma readEntry_opened:
  assumes "os_Stat sys (filepath_Join sys
             [Root r, indexDir (filepath_Join sys) name, ns @ ''_'' @ name]) w = (None, w1)"
    and "os_Open sys (filepath_Join sys
             [Root r, indexDir (filepath_Join sys) name, ns @ ''_'' @ name]) w1 = (Inr f, w2)"
  shows "readEntry sys r ns name version w =
     (case scan_loop (json_Unmarshal sys) ns name [] (scan_Text f) of
        Inl err \<Rightarrow> ((Entry_zero, Some err), w2)
      | Inr bps \<Rightarrow>
     (case scan_Err f of
        Some err \<Rightarrow>
          ((\<lparr>Buildpacks = bps\<rparr>,
            Some (ErrorWrap err
              (''could not read index for buildpack: '' @ ns @ ''/'' @ name))), w2)
      | None \<Rightarrow> ((\<lparr>Buildpacks = bps\<rparr>, None), w2)))"
  using assms by (simp add: readEntry_def Let_def)

text \<open>
  Claim C6. When the index file was opened and one of its lines does not decode, or the
  scanner reports an error at the end, \<^verbatim>\<open>LocateBuildpack\<close> returns an error and the
  zero entry: nothing of the lines decoded so far reaches the caller. The first two
  conjuncts give the error in each case, the third the claim as it is stated.
\<close>

theorem read_failure_no_partial_result:
  assumes "Refresh sys r w = (None, w1)"
    and "buildpack_ParseRegistryID sys bp = Inr (ns, name, version)"
    and "os_Stat sys (filepath_Join sys
             [Root r, indexDir (filepath_Join sys) name, ns @ ''_'' @ name]) w1 = (None, w2)"
    and "os_Open sys (filepath_Join sys
             [Root r, indexDir (filepath_Join sys) name, ns @ ''_'' @ name]) w2 = (Inr f, w3)"
  shows "(\<forall>i < length (scan_Text f).
            (\<forall>j < i. \<not> isl (json_Unmarshal sys (scan_Text f ! j)))
            \<and> json_Unmarshal sys (scan_Text f ! i) = Inl e
            \<longrightarrow> LocateBuildpack sys r bp w =
                  ((Buildpack_zero,
                    Some (ErrorWrap
                      (ErrorWrap e (''could not parse index for buildpack: '' @ ns @ ''/'' @ name))
                      ''reading entry'')), w3))
         \<and> ((\<forall>l \<in> set (scan_Text f). \<not> isl (json_Unmarshal sys l)) \<and> scan_Err f = Some e
            \<longrightarrow> LocateBuildpack sys r bp w =
                  ((Buildpack_zero,
                    Some (ErrorWrap
                      (ErrorWrap e (''could not read index for buildpack: '' @ ns @ ''/'' @ name))
                      ''reading entry'')), w3))
         \<and> ((\<exists>l \<in> set (scan_Text f). isl (json_Unmarshal sys l)) \<or> scan_Err f \<noteq> None
            \<longrightarrow> fst (fst (LocateBuildpack sys r bp w)) = Buildpack_zero
                \<and> snd (fst (LocateBuildpack sys r bp w)) \<noteq> None)"
proof (intro conjI allI impI)
  fix i
  assume "i < length (scan_Text f)"
    and "(\<forall>j < i. \<not> isl (json_Unmarshal sys (scan_Text f ! j)))
            \<and> json_Unmarshal sys (scan_Text f ! i) = Inl e"
  then have "scan_loop (json_Unmarshal sys) ns name [] (scan_Text f) =
      Inl (ErrorWrap e (''could not parse index for buildpack: '' @ ns @ ''/'' @ name))"
    by (simp add: scan_loop_Inl)
  then have "readEntry sys r ns name version w1 = ((Entry_zero,
      Some (ErrorWrap e (''could not parse index for buildpack: '' @ ns @ ''/'' @ name))), w3)"
    by (simp add: readEntry_opened [OF assms(3,4)])
  from LocateBuildpack_read_error [OF assms(1,2) this]
  show "LocateBuildpack sys r bp w =
      ((Buildpack_zero,
        Some (ErrorWrap
          (ErrorWrap e (''could not parse index for buildpack: '' @ ns @ ''/'' @ name))
          ''reading entry'')), w3)" .
next
  assume a: "(\<forall>l \<in> set (scan_Text f). \<not> isl (json_Unmarshal sys l)) \<and> scan_Err f = Some e"
  then have "readEntry sys r ns name version w1 =
      ((\<lparr>Buildpacks = [] @ map (\<lambda>l. projr (json_Unmarshal sys l)) (scan_Text f)\<rparr>,
       Some (ErrorWrap e (''could not read index for buildpack: '' @ ns @ ''/'' @ name))), w3)"
    by (simp add: readEntry_opened [OF assms(3,4)] scan_loop_Inr)
  from LocateBuildpack_read_error [OF assms(1,2) this]
  show "LocateBuildpack sys r bp w =
      ((Buildpack_zero,
        Some (ErrorWrap
          (ErrorWrap e (''could not read index for buildpack: '' @ ns @ ''/'' @ name))
          ''reading entry'')), w3)" .
next
  assume a: "(\<exists>l \<in> set (scan_Text f). isl (json_Unmarshal sys l)) \<or> scan_Err f \<noteq> None"
  have "\<exists>entry err. readEntry sys r ns name version w1 = ((entry, Some err), w3)"
  proof (cases "scan_loop (json_Unmarshal sys) ns name [] (scan_Text f)")
    case (Inl err)
    then show ?thesis by (simp add: readEntry_opened [OF assms(3,4)])
  next
    case (Inr bps)
    with a scan_loop_bad [of "scan_Text f" "json_Unmarshal sys" ns name "[]"]
    have "scan_Err f \<noteq> None" by auto
    with Inr show ?thesis by (auto simp: readEntry_opened [OF assms(3,4)])
  qed
  then obtain entry err where "readEntry sys r ns name version w1 = ((entry, Some err), w3)"
    by blast
  from LocateBuildpack_read_error [OF assms(1,2) this]
  show "fst (fst (LocateBuildpack sys r bp w)) = Buildpack_zero"
    and "snd (fst (LocateBuildpack sys r bp w)) \<noteq> None" by simp_all
qed

theorem read_failure_no_partial_result_witness:
  "fst (LocateBuildpack (mock_sys (Root cache0) table0) cache0 ''ns/abc''
          (world_lines [''L100'', ''{'', ''L210''] None))
     = (Buildpack_zero,
        Some (ErrorWrap (ErrorWrap (ErrorNew ''invalid character'')
                ''could not parse index for buildpack: ns/abc'') ''reading entry''))
   \<and> fst (LocateBuildpack (mock_sys (Root cache0) table0) cache0 ''ns/abc''
          (world_lines [''L100'', ''L210''] (Some (ErrorNew ''unexpected EOF''))))
     = (Buildpack_zero,
        Some (ErrorWrap (ErrorWrap (ErrorNew ''unexpected EOF'')
                ''could not read index for buildpack: ns/abc'') ''reading entry''))"
proof -
  let ?S = "mock_sys (Root cache0) table0"
  let ?p = "filepath_Join ?S [Root cache0, indexDir (filepath_Join ?S) ''abc'', ''ns'' @ ''_'' @ ''abc'']"
  let ?wa = "world_lines [''L100'', ''{'', ''L210''] None"
  let ?fa = "\<lparr>scan_Text = [''L100'', ''{'', ''L210''], scan_Err = None\<rparr>"
  let ?wb = "world_lines [''L100'', ''L210''] (Some (ErrorNew ''unexpected EOF''))"
  let ?fb = "\<lparr>scan_Text = [''L100'', ''L210''], scan_Err = Some (ErrorNew ''unexpected EOF'')\<rparr>"
  let ?wa1 = "snd (Refresh ?S cache0 ?wa)"
  let ?wa2 = "snd (os_Stat ?S ?p ?wa1)"
  let ?wa3 = "snd (os_Open ?S ?p ?wa2)"
  let ?wb1 = "snd (Refresh ?S cache0 ?wb)"
  let ?wb2 = "snd (os_Stat ?S ?p ?wb1)"
  let ?wb3 = "snd (os_Open ?S ?p ?wb2)"
  have h2: "buildpack_ParseRegistryID ?S ''ns/abc'' = Inr (''ns'', ''abc'', [])" by code_simp
  have a1: "Refresh ?S cache0 ?wa = (None, ?wa1)" by code_simp
  have a3: "os_Stat ?S ?p ?wa1 = (None, ?wa2)" by code_simp
  have a4: "os_Open ?S ?p ?wa2 = (Inr ?fa, ?wa3)" by code_simp
  have a5: "json_Unmarshal ?S ''L100'' = Inr (bp_of ''1.0.0'' False ''r.io/abc@sha256:aa'')"
    by code_simp
  have a6: "json_Unmarshal ?S ''{'' = Inl (ErrorNew ''invalid character'')" by code_simp
  have a: "LocateBuildpack ?S cache0 ''ns/abc'' ?wa =
      ((Buildpack_zero,
        Some (ErrorWrap (ErrorWrap (ErrorNew ''invalid character'')
          (''could not parse index for buildpack: '' @ ''ns'' @ ''/'' @ ''abc'')) ''reading entry'')),
       ?wa3)"
    using read_failure_no_partial_result [OF a1 h2 a3 a4, THEN conjunct1, rule_format, of 1
        "ErrorNew ''invalid character''"] a5 a6
    by simp
  have b1: "Refresh ?S cache0 ?wb = (None, ?wb1)" by code_simp
  have b3: "os_Stat ?S ?p ?wb1 = (None, ?wb2)" by code_simp
  have b4: "os_Open ?S ?p ?wb2 = (Inr ?fb, ?wb3)" by code_simp
  have b5: "json_Unmarshal ?S ''L210'' = Inr (bp_of ''2.1.0'' True ''r.io/abc@sha256:bb'')"
    by code_simp
  have b: "LocateBuildpack ?S cache0 ''ns/abc'' ?wb =
      ((Buildpack_zero,
        Some (ErrorWrap (ErrorWrap (ErrorNew ''unexpected EOF'')
          (''could not read index for buildpack: '' @ ''ns'' @ ''/'' @ ''abc'')) ''reading entry'')),
       ?wb3)"
    using read_failure_no_partial_result [OF b1 h2 b3 b4, THEN conjunct2, THEN conjunct1,
        of "ErrorNew ''unexpected EOF''"] a5 b5
    by simp
  show ?thesis by (simp add: a b)
qed

section \<open>Resolution without a requested version\<close>

lemma highest_loop_keeps:
  "\<forall>b \<in> set rest. \<not> cmp (''v'' @ Version b) (''v'' @ Version h) > 0 \<Longrightarrow>
   highest_loop cmp h rest = h"
  by (induction rest) simp_all

lemma Compare_unparsable: "parse v = None \<Longrightarrow> parse w = None \<Longrightarrow> Compare v w = 0"
  by (simp add: Compare_def)

lemma highest_loop_first_max:
  assumes "strict_weak_on cmp ((\<lambda>b. ''v'' @ Version b) ` set (pre @ rest))"
    and "i < length pre"
    and "\<forall>j < length pre. \<not> cmp (''v'' @ Version (pre ! j)) (''v'' @ Version (pre ! i)) > 0"
    and "\<forall>j < i. cmp (''v'' @ Version (pre ! i)) (''v'' @ Version (pre ! j)) > 0"
  shows "\<exists>k < length (pre @ rest).
           highest_loop cmp (pre ! i) rest = (pre @ rest) ! k
           \<and> (\<forall>j < length (pre @ rest).
                 \<not> cmp (''v'' @ Version ((pre @ rest) ! j)) (''v'' @ Version ((pre @ rest) ! k)) > 0)
           \<and> (\<forall>j < k.
                 cmp (''v'' @ Version ((pre @ rest) ! k)) (''v'' @ Version ((pre @ rest) ! j)) > 0)"
  using assms
proof (induction rest arbitrary: pre i)
  case Nil
  then show ?case by auto
next
  case (Cons b rest)
  let ?V = "(\<lambda>b. ''v'' @ Version b) ` set (pre @ b # rest)"
  let ?v = "\<lambda>x. ''v'' @ Version x"
  let ?pre = "pre @ [b]"
  have swo: "strict_weak_on cmp ((\<lambda>b. ''v'' @ Version b) ` set (?pre @ rest))"
    using Cons.prems(1) by simp
  have inV: "\<And>j. j < length pre \<Longrightarrow> ?v (pre ! j) \<in> ?V" by auto
  have bV: "?v b \<in> ?V" by simp
  have hV: "?v (pre ! i) \<in> ?V" using Cons.prems(2) by auto
  have irr: "\<And>a. a \<in> ?V \<Longrightarrow> \<not> cmp a a > 0"
    and tr: "\<And>a b c. a \<in> ?V \<Longrightarrow> b \<in> ?V \<Longrightarrow> c \<in> ?V \<Longrightarrow> cmp a b > 0 \<Longrightarrow> cmp b c > 0
               \<Longrightarrow> cmp a c > 0"
    and ntr: "\<And>a b c. a \<in> ?V \<Longrightarrow> b \<in> ?V \<Longrightarrow> c \<in> ?V \<Longrightarrow> cmp a b > 0
               \<Longrightarrow> cmp a c > 0 \<or> cmp c b > 0"
    using Cons.prems(1) unfolding strict_weak_on_def by blast+
  show ?case
  proof (cases "cmp (?v b) (?v (pre ! i)) > 0")
    case True
    have i': "length pre < length ?pre" by simp
    have m: "\<forall>j < length ?pre. \<not> cmp (?v (?pre ! j)) (?v (?pre ! length pre)) > 0"
    proof (intro allI impI)
      fix j assume "j < length ?pre"
      then consider "j < length pre" | "j = length pre" by force
      then show "\<not> cmp (?v (?pre ! j)) (?v (?pre ! length pre)) > 0"
      proof cases
        case 1
        with Cons.prems(3) have "\<not> cmp (?v (pre ! j)) (?v (pre ! i)) > 0" by simp
        with tr [OF inV [OF 1] bV hV] True have "\<not> cmp (?v (pre ! j)) (?v b) > 0" by blast
        with 1 show ?thesis by (simp add: nth_append)
      next
        case 2
        with irr [OF bV] show ?thesis by simp
      qed
    qed
    have f: "\<forall>j < length pre. cmp (?v (?pre ! length pre)) (?v (?pre ! j)) > 0"
    proof (intro allI impI)
      fix j assume j: "j < length pre"
      with Cons.prems(3) have "\<not> cmp (?v (pre ! j)) (?v (pre ! i)) > 0" by simp
      with ntr [OF bV hV inV [OF j]] True have "cmp (?v b) (?v (pre ! j)) > 0" by blast
      with j show "cmp (?v (?pre ! length pre)) (?v (?pre ! j)) > 0" by (simp add: nth_append)
    qed
    from Cons.IH [OF swo i' m f] True show ?thesis by simp
  next
    case False
    have i': "i < length ?pre" using Cons.prems(2) by simp
    have m: "\<forall>j < length ?pre. \<not> cmp (?v (?pre ! j)) (?v (?pre ! i)) > 0"
    proof (intro allI impI)
      fix j assume "j < length ?pre"
      then consider "j < length pre" | "j = length pre" by force
      then show "\<not> cmp (?v (?pre ! j)) (?v (?pre ! i)) > 0"
        using Cons.prems(2,3) False by cases (simp_all add: nth_append)
    qed
    have f: "\<forall>j < i. cmp (?v (?pre ! i)) (?v (?pre ! j)) > 0"
      using Cons.prems(2,4) by (simp add: nth_append)
    from Cons.IH [OF swo i' m f] False Cons.prems(2) show ?thesis by (simp add: nth_append)
  qed
qed

lemma highest_loop_max:
  assumes "bps \<noteq> []"
    and "strict_weak_on cmp ((\<lambda>b. ''v'' @ Version b) ` set bps)"
  shows "\<exists>k < length bps.
           highest_loop cmp (bps ! 0) (drop 1 bps) = bps ! k
           \<and> (\<forall>j < length bps. cmp (''v'' @ Version (bps ! j)) (''v'' @ Version (bps ! k)) \<le> 0)
           \<and> (\<forall>j < k. cmp (''v'' @ Version (bps ! k)) (''v'' @ Version (bps ! j)) > 0)"
proof -
  from assms(1) obtain h rest where bps: "bps = [h] @ rest" by (cases bps) auto
  have "\<not> cmp (''v'' @ Version h) (''v'' @ Version h) > 0"
    using assms(2) unfolding strict_weak_on_def bps by simp
  then have "\<exists>k < length ([h] @ rest).
           highest_loop cmp ([h] ! 0) rest = ([h] @ rest) ! k
           \<and> (\<forall>j < length ([h] @ rest).
                 \<not> cmp (''v'' @ Version (([h] @ rest) ! j)) (''v'' @ Version (([h] @ rest) ! k)) > 0)
           \<and> (\<forall>j < k.
                 cmp (''v'' @ Version (([h] @ rest) ! k)) (''v'' @ Version (([h] @ rest) ! j)) > 0)"
    using assms(2) unfolding bps by (intro highest_loop_first_max) simp_all
  then show ?thesis unfolding bps by (simp add: not_less)
qed

text \<open>
  Claim C2. When the coordinate carries no version and the entry list is not empty,
  \<^verbatim>\<open>LocateBuildpack\<close> returns an entry of the list that no entry of the list
  exceeds in the comparison of versions (each version prefixed with \<open>v\<close>), and that
  strictly exceeds every entry before it: the first of the highest entries. All entries
  count, whatever their \<open>Yanked\<close> field. This holds for any comparison that ranks the
  versions of the list (first conjunct), and \<^verbatim>\<open>semver.Compare\<close> does (second
  conjunct). With the versions \<open>1.0.0\<close>, \<open>2.1.0\<close>, \<open>1.9.9\<close> the entry returned is
  the second, \<open>2.1.0\<close> (third conjunct).
\<close>

theorem highest_version_selected:
  assumes "Refresh sys r w = (None, w1)"
    and "buildpack_ParseRegistryID sys bp = Inr (ns, name, [])"
    and "readEntry sys r ns name [] w1 = ((entry, None), w2)"
    and "Buildpacks entry \<noteq> []"
  shows "(strict_weak_on (semver_Compare sys) ((\<lambda>b. ''v'' @ Version b) ` set (Buildpacks entry))
          \<longrightarrow> (\<exists>k < length (Buildpacks entry).
                LocateBuildpack sys r bp w = ((Buildpacks entry ! k, None), w2)
                \<and> (\<forall>j < length (Buildpacks entry).
                      semver_Compare sys (''v'' @ Version (Buildpacks entry ! j))
                        (''v'' @ Version (Buildpacks entry ! k)) \<le> 0)
                \<and> (\<forall>j < k.
                      semver_Compare sys (''v'' @ Version (Buildpacks entry ! k))
                        (''v'' @ Version (Buildpacks entry ! j)) > 0)))
         \<and> strict_weak_on Compare ((\<lambda>b. ''v'' @ Version b) ` set (Buildpacks entry))
         \<and> (semver_Compare sys = Compare
              \<and> map Version (Buildpacks entry) = [''1.0.0'', ''2.1.0'', ''1.9.9'']
            \<longrightarrow> LocateBuildpack sys r bp w = ((Buildpacks entry ! 1, None), w2))"
proof (intro conjI impI)
  assume "strict_weak_on (semver_Compare sys) ((\<lambda>b. ''v'' @ Version b) ` set (Buildpacks entry))"
  from highest_loop_max [OF assms(4) this] assms(4)
  show "\<exists>k < length (Buildpacks entry).
          LocateBuildpack sys r bp w = ((Buildpacks entry ! k, None), w2)
          \<and> (\<forall>j < length (Buildpacks entry).
                semver_Compare sys (''v'' @ Version (Buildpacks entry ! j))
                  (''v'' @ Version (Buildpacks entry ! k)) \<le> 0)
          \<and> (\<forall>j < k.
                semver_Compare sys (''v'' @ Version (Buildpacks entry ! k))
                  (''v'' @ Version (Buildpacks entry ! j)) > 0)"
    by (simp add: LocateBuildpack_read [OF assms(1-3)])
next
  show "strict_weak_on Compare ((\<lambda>b. ''v'' @ Version b) ` set (Buildpacks entry))"
    by (rule Compare_strict_weak)
next
  assume a: "semver_Compare sys = Compare
      \<and> map Version (Buildpacks entry) = [''1.0.0'', ''2.1.0'', ''1.9.9'']"
  then obtain x y z where bps: "Buildpacks entry = [x, y, z]"
    and v: "Version x = ''1.0.0''" "Version y = ''2.1.0''" "Version z = ''1.9.9''"
    by (auto simp: map_eq_Cons_conv)
  have c1: "Compare ''v2.1.0'' ''v1.0.0'' = 1" by code_simp
  have c2: "Compare ''v1.9.9'' ''v2.1.0'' = - 1" by code_simp
  from a show "LocateBuildpack sys r bp w = ((Buildpacks entry ! 1, None), w2)"
    by (simp add: LocateBuildpack_read [OF assms(1-3)] bps v c1 c2)
qed

theorem highest_version_selected_witness:
  "strict_weak_on Compare (set [''v1.0.0'', ''v2.1.0'', ''v1.9.9''])
   \<and> fst (LocateBuildpack (mock_sys (Root cache0) table0) cache0 ''ns/abc''
          (world_lines [''L100'', ''L210'', ''L199''] None))
     = (bp_of ''2.1.0'' True ''r.io/abc@sha256:bb'', None)
   \<and> (\<exists>k < 3. fst (LocateBuildpack (mock_sys (Root cache0) table0) cache0 ''ns/abc''
          (world_lines [''L100'', ''L210'', ''L199''] None))
     = ([bp_of ''1.0.0'' False ''r.io/abc@sha256:aa'', bp_of ''2.1.0'' True ''r.io/abc@sha256:bb'',
         bp_of ''1.9.9'' False ''r.io/abc@sha256:cc''] ! k, None))"
proof -
  let ?S = "mock_sys (Root cache0) table0"
  let ?w = "world_lines [''L100'', ''L210'', ''L199''] None"
  let ?w1 = "snd (Refresh ?S cache0 ?w)"
  let ?re = "readEntry ?S cache0 ''ns'' ''abc'' [] ?w1"
  let ?bps = "[bp_of ''1.0.0'' False ''r.io/abc@sha256:aa'',
      bp_of ''2.1.0'' True ''r.io/abc@sha256:bb'', bp_of ''1.9.9'' False ''r.io/abc@sha256:cc'']"
  have h1: "Refresh ?S cache0 ?w = (None, ?w1)" by code_simp
  have h2: "buildpack_ParseRegistryID ?S ''ns/abc'' = Inr (''ns'', ''abc'', [])" by code_simp
  have h3: "?re = ((\<lparr>Buildpacks = ?bps\<rparr>, None), snd ?re)" by code_simp
  have h4: "Buildpacks \<lparr>Buildpacks = ?bps\<rparr> \<noteq> []" by simp
  have h5: "strict_weak_on Compare (set [''v1.0.0'', ''v2.1.0'', ''v1.9.9''])" by code_simp
  have h6: "semver_Compare ?S = Compare" by (simp add: mock_sys_def)
  note t = highest_version_selected [OF h1 h2 h3 h4]
  have a: "LocateBuildpack ?S cache0 ''ns/abc'' ?w
      = ((Buildpacks \<lparr>Buildpacks = ?bps\<rparr> ! 1, None), snd ?re)"
    using t [THEN conjunct2, THEN conjunct2] h6 by (simp add: bp_of_def)
  have "\<exists>k < length ?bps. LocateBuildpack ?S cache0 ''ns/abc'' ?w = ((?bps ! k, None), snd ?re)"
    using t [THEN conjunct1] h5 h6 by (auto simp: bp_of_def)
  then have b: "\<exists>k < 3. fst (LocateBuildpack ?S cache0 ''ns/abc'' ?w) = (?bps ! k, None)"
    by (auto simp: numeral_3_eq_3)
  from h5 a b show ?thesis by simp
qed

text \<open>
  Claim C9. When the coordinate carries no version and all comparisons between the
  versions of the entries give equality, \<^verbatim>\<open>LocateBuildpack\<close> returns the first entry
  of the file (first conjunct); with \<^verbatim>\<open>semver.Compare\<close> this is the case when no
  version of the list parses as a semantic version (second conjunct).
\<close>

theorem unparsable_versions_first_entry:
  assumes "Refresh sys r w = (None, w1)"
    and "buildpack_ParseRegistryID sys bp = Inr (ns, name, [])"
    and "readEntry sys r ns name [] w1 = ((entry, None), w2)"
    and "Buildpacks entry \<noteq> []"
  shows "((\<forall>b \<in> set (Buildpacks entry). \<forall>c \<in> set (Buildpacks entry).
              semver_Compare sys (''v'' @ Version b) (''v'' @ Version c) = 0)
          \<longrightarrow> LocateBuildpack sys r bp w = ((Buildpacks entry ! 0, None), w2))
         \<and> (semver_Compare sys = Compare
              \<and> (\<forall>b \<in> set (Buildpacks entry). parse (''v'' @ Version b) = None)
            \<longrightarrow> LocateBuildpack sys r bp w = ((Buildpacks entry ! 0, None), w2))"
proof -
  from assms(4) obtain h rest where bps: "Buildpacks entry = h # rest"
    by (cases "Buildpacks entry") auto
  have keep: "LocateBuildpack sys r bp w = ((Buildpacks entry ! 0, None), w2)"
    if "\<forall>b \<in> set (Buildpacks entry). \<forall>c \<in> set (Buildpacks entry).
          semver_Compare sys (''v'' @ Version b) (''v'' @ Version c) = 0"
  proof -
    from that have "\<forall>b \<in> set rest.
        \<not> semver_Compare sys (''v'' @ Version b) (''v'' @ Version h) > 0"
      by (simp add: bps)
    then have "highest_loop (semver_Compare sys) h rest = h" by (rule highest_loop_keeps)
    then show ?thesis by (simp add: LocateBuildpack_read [OF assms(1-3)] bps)
  qed
  show ?thesis
  proof (intro conjI impI)
    assume "\<forall>b \<in> set (Buildpacks entry). \<forall>c \<in> set (Buildpacks entry).
          semver_Compare sys (''v'' @ Version b) (''v'' @ Version c) = 0"
    then show "LocateBuildpack sys r bp w = ((Buildpacks entry ! 0, None), w2)" by (rule keep)
  next
    assume "semver_Compare sys = Compare
        \<and> (\<forall>b \<in> set (Buildpacks entry). parse (''v'' @ Version b) = None)"
    then have "\<forall>b \<in> set (Buildpacks entry). \<forall>c \<in> set (Buildpacks entry).
          semver_Compare sys (''v'' @ Version b) (''v'' @ Version c) = 0"
      by (simp add: Compare_unparsable)
    then show "LocateBuildpack sys r bp w = ((Buildpacks entry ! 0, None), w2)" by (rule keep)
  qed
qed

theorem unparsable_versions_first_entry_witness:
  "parse ''vlatest'' = None \<and> parse ''v1.x'' = None
   \<and> fst (LocateBuildpack (mock_sys (Root cache0) table0) cache0 ''ns/abc''
          (world_lines [''Lx'', ''Ly''] None))
     = (bp_of ''latest'' False ''r.io/abc@sha256:ee'', None)"
proof -
  let ?S = "mock_sys (Root cache0) table0"
  let ?w = "world_lines [''Lx'', ''Ly''] None"
  let ?w1 = "snd (Refresh ?S cache0 ?w)"
  let ?re = "readEntry ?S cache0 ''ns'' ''abc'' [] ?w1"
  let ?bps = "[bp_of ''latest'' False ''r.io/abc@sha256:ee'',
      bp_of ''1.x'' False ''r.io/abc@sha256:ff'']"
  have h1: "Refresh ?S cache0 ?w = (None, ?w1)" by code_simp
  have h2: "buildpack_ParseRegistryID ?S ''ns/abc'' = Inr (''ns'', ''abc'', [])" by code_simp
  have h3: "?re = ((\<lparr>Buildpacks = ?bps\<rparr>, None), snd ?re)" by code_simp
  have h4: "Buildpacks \<lparr>Buildpacks = ?bps\<rparr> \<noteq> []" by simp
  have p1: "parse ''vlatest'' = None" by code_simp
  have p2: "parse ''v1.x'' = None" by code_simp
  have c: "\<forall>b \<in> set ?bps. \<forall>c \<in> set ?bps.
      semver_Compare ?S (''v'' @ Version b) (''v'' @ Version c) = 0"
    by (simp add: mock_sys_def bp_of_def Compare_unparsable p1 p2)
  have h6: "semver_Compare ?S = Compare" by (simp add: mock_sys_def)
  note t = unparsable_versions_first_entry [OF h1 h2 h3 h4]
  have a: "LocateBuildpack ?S cache0 ''ns/abc'' ?w = ((?bps ! 0, None), snd ?re)"
    using t [THEN conjunct1] c by simp
  have b: "LocateBuildpack ?S cache0 ''ns/abc'' ?w = ((?bps ! 0, None), snd ?re)"
    using t [THEN conjunct2] h6 p1 p2 by (simp add: bp_of_def)
  from p1 p2 a b show ?thesis by simp
qed

section \<open>The cache lifecycle: Initialize\<close>

lemma Initialize_validate_invalid:
  assumes "validateCache sys r w1 = (Some verr, w2)"
  shows "Initialize_validate sys r w1 =
     (case os_RemoveAll sys (Root r) w2 of
        (Some err, w3) \<Rightarrow> (Some (ErrorWrap err ''could not reset registry cache''), w3)
      | (None, w3) \<Rightarrow>
     (case createCache sys r w3 of
        (Some err, w4) \<Rightarrow> (Some (ErrorWrap err ''could not create registry cache''), w4)
      | (None, w4) \<Rightarrow> (None, w4)))"
  using assms by (simp add: Initialize_validate_def)

lemma validateCache_errors:
  assumes "validateCache sys r w1 = (Some verr, w2)"
  shows "(\<exists>e. verr = ErrorWrap e ''could not open registry cache'')
     \<or> (\<exists>e. verr = ErrorWrap e ''could not access registry cache'')
     \<or> verr = ErrorNew ''invalid registry cache remotes''
     \<or> verr = ErrorNew ''invalid registry cache origin''"
  using assms
  by (auto simp: validateCache_def checkRemotes_def split: prod.splits sum.splits if_splits)

text \<open>
  Claim C5. When the mirror exists (\<^verbatim>\<open>os.Stat\<close> succeeds) and fails validation,
  \<^verbatim>\<open>Initialize\<close> removes the mirror root with \<^verbatim>\<open>os.RemoveAll\<close> and creates the
  mirror again; the validation error is never what it returns. The first three conjuncts
  are the ways validation fails that the claim lists: the mirror does not open, the
  number of remotes or of URLs of the remote is not one, the URL is not the configured
  one. The next two give the result: a failed removal is returned as
  \<^verbatim>\<open>could not reset registry cache\<close>, and after a removal the result is that of the
  creation, wrapped as \<^verbatim>\<open>could not create registry cache\<close> when it fails. The last
  two say that the validation error is not returned and that the two errors differ.
\<close>

theorem invalid_mirror_reset:
  assumes "os_Stat sys (Root r) w = (None, w1)"
  shows "(git_PlainOpen sys (Root r) w1 = (Inl e, w2)
            \<longrightarrow> validateCache sys r w1 =
                  (Some (ErrorWrap e ''could not open registry cache''), w2))
         \<and> (git_PlainOpen sys (Root r) w1 = (Inr repo, w1')
              \<and> Repository_Remotes sys repo w1' = (Inr rs, w2)
              \<and> (length rs \<noteq> 1 \<or> length (URLs (rs ! 0)) \<noteq> 1)
            \<longrightarrow> validateCache sys r w1 =
                  (Some (ErrorNew ''invalid registry cache remotes''), w2))
         \<and> (git_PlainOpen sys (Root r) w1 = (Inr repo, w1')
              \<and> Repository_Remotes sys repo w1' = (Inr [\<lparr>URLs = [u]\<rparr>], w2)
              \<and> u \<noteq> URL r
            \<longrightarrow> validateCache sys r w1 =
                  (Some (ErrorNew ''invalid registry cache origin''), w2))
         \<and> (validateCache sys r w1 = (Some verr, w2)
              \<and> os_RemoveAll sys (Root r) w2 = (Some e, w3)
            \<longrightarrow> Initialize sys r w =
                  (Some (ErrorWrap e ''could not reset registry cache''), w3))
         \<and> (validateCache sys r w1 = (Some verr, w2)
              \<and> os_RemoveAll sys (Root r) w2 = (None, w3)
            \<longrightarrow> Initialize sys r w =
                  (case createCache sys r w3 of
                     (Some err, w4) \<Rightarrow>
                       (Some (ErrorWrap err ''could not create registry cache''), w4)
                   | (None, w4) \<Rightarrow> (None, w4)))
         \<and> (validateCache sys r w1 = (Some verr, w2)
            \<longrightarrow> fst (Initialize sys r w) \<noteq> Some verr)
         \<and> ErrorWrap e ''could not reset registry cache''
              \<noteq> ErrorWrap e' ''could not create registry cache''"
proof -
  have init: "Initialize sys r w = Initialize_validate sys r w1"
    using assms by (simp add: Initialize_def)
  have a: "git_PlainOpen sys (Root r) w1 = (Inl e, w2)
            \<longrightarrow> validateCache sys r w1 =
                  (Some (ErrorWrap e ''could not open registry cache''), w2)"
    by (simp add: validateCache_def)
  have b: "git_PlainOpen sys (Root r) w1 = (Inr repo, w1')
              \<and> Repository_Remotes sys repo w1' = (Inr rs, w2)
              \<and> (length rs \<noteq> 1 \<or> length (URLs (rs ! 0)) \<noteq> 1)
            \<longrightarrow> validateCache sys r w1 =
                  (Some (ErrorNew ''invalid registry cache remotes''), w2)"
    by (auto simp: validateCache_def checkRemotes_def)
  have c: "git_PlainOpen sys (Root r) w1 = (Inr repo, w1')
              \<and> Repository_Remotes sys repo w1' = (Inr [\<lparr>URLs = [u]\<rparr>], w2)
              \<and> u \<noteq> URL r
            \<longrightarrow> validateCache sys r w1 =
                  (Some (ErrorNew ''invalid registry cache origin''), w2)"
    by (auto simp: validateCache_def checkRemotes_def)
  have d: "validateCache sys r w1 = (Some verr, w2)
              \<and> os_RemoveAll sys (Root r) w2 = (Some e, w3)
            \<longrightarrow> Initialize sys r w =
                  (Some (ErrorWrap e ''could not reset registry cache''), w3)"
    by (auto simp: init Initialize_validate_invalid)
  have e: "validateCache sys r w1 = (Some verr, w2)
              \<and> os_RemoveAll sys (Root r) w2 = (None, w3)
            \<longrightarrow> Initialize sys r w =
                  (case createCache sys r w3 of
                     (Some err, w4) \<Rightarrow>
                       (Some (ErrorWrap err ''could not create registry cache''), w4)
                   | (None, w4) \<Rightarrow> (None, w4))"
    by (auto simp: init Initialize_validate_invalid)
  have f: "validateCache sys r w1 = (Some verr, w2)
            \<longrightarrow> fst (Initialize sys r w) \<noteq> Some verr"
  proof
    assume v: "validateCache sys r w1 = (Some verr, w2)"
    from validateCache_errors [OF v] show "fst (Initialize sys r w) \<noteq> Some verr"
      by (auto simp: init Initialize_validate_invalid [OF v] split: prod.splits option.splits)
  qed
  have g: "ErrorWrap e ''could not reset registry cache''
              \<noteq> ErrorWrap e' ''could not create registry cache''"
    by simp
  from a b c d e f g show ?thesis by blast
qed

theorem invalid_mirror_reset_witness:
  "fst (validateCache (mock_sys (Root cache0) table0) cache0
      (snd (os_Stat (mock_sys (Root cache0) table0) (Root cache0) world_stale)))
     = Some (ErrorNew ''invalid registry cache origin'')
   \<and> fst (Initialize (mock_sys (Root cache0) table0) cache0 world_stale) = None
   \<and> mirror (snd (Initialize (mock_sys (Root cache0) table0) cache0 world_stale))
       = Some (tree_of [URL cache0] [''L210''] None)
   \<and> calls (snd (Initialize (mock_sys (Root cache0) table0) cache0 world_stale))
       = [''Stat'', ''PlainOpen'', ''Remotes'', ''RemoveAll'',
          ''TempDir'', ''PlainClone'', ''Worktree'', ''Rename'']"
proof -
  let ?S = "mock_sys (Root cache0) table0"
  let ?w = "world_stale"
  let ?w1 = "snd (os_Stat ?S (Root cache0) ?w)"
  let ?w2 = "snd (validateCache ?S cache0 ?w1)"
  let ?w3 = "snd (os_RemoveAll ?S (Root cache0) ?w2)"
  let ?w4 = "snd (createCache ?S cache0 ?w3)"
  have h1: "os_Stat ?S (Root cache0) ?w = (None, ?w1)" by code_simp
  have h2: "validateCache ?S cache0 ?w1 = (Some (ErrorNew ''invalid registry cache origin''), ?w2)"
    by code_simp
  have h3: "os_RemoveAll ?S (Root cache0) ?w2 = (None, ?w3)" by code_simp
  have h4: "createCache ?S cache0 ?w3 = (None, ?w4)" by code_simp
  have h5: "mirror ?w4 = Some (tree_of [URL cache0] [''L210''] None)" by code_simp
  have h6: "calls ?w4 = [''Stat'', ''PlainOpen'', ''Remotes'', ''RemoveAll'',
          ''TempDir'', ''PlainClone'', ''Worktree'', ''Rename'']" by code_simp
  have h7: "fst (validateCache ?S cache0 ?w1) = Some (ErrorNew ''invalid registry cache origin'')"
    by code_simp
  have "Initialize ?S cache0 ?w =
      (case createCache ?S cache0 ?w3 of
         (Some err, w4) \<Rightarrow> (Some (ErrorWrap err ''could not create registry cache''), w4)
       | (None, w4) \<Rightarrow> (None, w4))"
    by (rule invalid_mirror_reset [OF h1, THEN conjunct2, THEN conjunct2, THEN conjunct2,
        THEN conjunct2, THEN conjunct1, rule_format, OF conjI [OF h2 h3]])
  also have "\<dots> = (None, ?w4)" by (subst h4) simp
  finally have i: "Initialize ?S cache0 ?w = (None, ?w4)" .
  have r1: "fst (Initialize ?S cache0 ?w) = None" by (simp only: i fst_conv)
  have r2: "snd (Initialize ?S cache0 ?w) = ?w4" by (simp only: i snd_conv)
  show ?thesis unfolding r2 by (intro conjI h7 r1 h5 h6)
qed

text \<open>
  Claim C10. When the mirror is absent at entry and its creation succeeds,
  \<^verbatim>\<open>Initialize\<close> still validates it: if validation passes the call ends there, with
  the world that validation left; if it fails, the removal succeeds and the second
  creation succeeds, the call ends with the world that the second creation left, without
  error: nothing runs after that creation, in particular no second validation.
\<close>

theorem fresh_mirror_validated_once:
  assumes "os_Stat sys (Root r) w = (Some serr, w1)"
    and "os_IsNotExist sys serr"
    and "createCache sys r w1 = (None, w2)"
  shows "(validateCache sys r w2 = (None, w3) \<longrightarrow> Initialize sys r w = (None, w3))
         \<and> (validateCache sys r w2 = (Some verr, w3)
              \<and> os_RemoveAll sys (Root r) w3 = (None, w4)
              \<and> createCache sys r w4 = (None, w5)
            \<longrightarrow> Initialize sys r w = (None, w5))"
proof -
  have init: "Initialize sys r w = Initialize_validate sys r w2"
    using assms by (simp add: Initialize_def)
  show ?thesis
    by (auto simp: init Initialize_validate_def)
qed

theorem fresh_mirror_validated_once_witness:
  "fst (Initialize (mock_sys (Root cache0) table0) cache0 world_absent) = None
   \<and> calls (snd (Initialize (mock_sys (Root cache0) table0) cache0 world_absent))
       = [''Stat'', ''TempDir'', ''PlainClone'', ''Worktree'', ''Rename'',
          ''PlainOpen'', ''Remotes'', ''RemoveAll'',
          ''TempDir'', ''PlainClone'', ''Worktree'', ''Rename'']
   \<and> fst (validateCache (mock_sys (Root cache0) table0) cache0
        (snd (Initialize (mock_sys (Root cache0) table0) cache0 world_absent)))
       = Some (ErrorNew ''invalid registry cache origin'')"
proof -
  let ?S = "mock_sys (Root cache0) table0"
  let ?w = "world_absent"
  let ?w1 = "snd (os_Stat ?S (Root cache0) ?w)"
  let ?w2 = "snd (createCache ?S cache0 ?w1)"
  let ?w3 = "snd (validateCache ?S cache0 ?w2)"
  let ?w4 = "snd (os_RemoveAll ?S (Root cache0) ?w3)"
  let ?w5 = "snd (createCache ?S cache0 ?w4)"
  have h1: "os_Stat ?S (Root cache0) ?w = (Some ENOENT, ?w1)" by code_simp
  have h2: "os_IsNotExist ?S ENOENT" by code_simp
  have h3: "createCache ?S cache0 ?w1 = (None, ?w2)" by code_simp
  have h4: "validateCache ?S cache0 ?w2 = (Some (ErrorNew ''invalid registry cache origin''), ?w3)"
    by code_simp
  have h5: "os_RemoveAll ?S (Root cache0) ?w3 = (None, ?w4)" by code_simp
  have h6: "createCache ?S cache0 ?w4 = (None, ?w5)" by code_simp
  have h7: "calls ?w5 = [''Stat'', ''TempDir'', ''PlainClone'', ''Worktree'', ''Rename'',
          ''PlainOpen'', ''Remotes'', ''RemoveAll'',
          ''TempDir'', ''PlainClone'', ''Worktree'', ''Rename'']" by code_simp
  have h8: "fst (validateCache ?S cache0 ?w5) = Some (ErrorNew ''invalid registry cache origin'')"
    by code_simp
  have i: "Initialize ?S cache0 ?w = (None, ?w5)"
    by (rule fresh_mirror_validated_once [OF h1 h2 h3, THEN conjunct2, rule_format,
        OF conjI [OF h4 conjI [OF h5 h6]]])
  have r1: "fst (Initialize ?S cache0 ?w) = None" by (simp only: i fst_conv)
  have r2: "snd (Initialize ?S cache0 ?w) = ?w5" by (simp only: i snd_conv)
  show ?thesis unfolding r2 by (intro conjI r1 h7 h8)
qed

section \<open>Resolution and address validation\<close>











end
